theory Spec2Isabelle
  imports Complex_Main "HOL-Library.Word"
begin

section \<open>Camera models: the parameter set and the shared algorithms of camera.cc\<close>

text \<open>
  The development follows \<^verbatim>\<open>src/mynteye/api/camera_models/camera.cc\<close>: the
  constructors and accessors of \<^verbatim>\<open>Camera::Parameters\<close>, and the algorithms that
  the abstract class \<^verbatim>\<open>Camera\<close> implements once for every lens model
  (\<^verbatim>\<open>estimateExtrinsics\<close>, \<^verbatim>\<open>reprojectionDist\<close>, the two
  \<^verbatim>\<open>reprojectionError\<close> overloads and \<^verbatim>\<open>projectPoints\<close>).
\<close>

subsection \<open>The parameter set\<close>

text \<open>
  Modelled from the spec: the enumeration \<^verbatim>\<open>Camera::ModelType\<close> is declared in
  camera.h; the spec lists its values as PINHOLE, KANNALA_BRANDT and MEI.
\<close>

datatype ModelType = KANNALA_BRANDT | MEI | PINHOLE

text \<open>
  The fields of \<^verbatim>\<open>Camera::Parameters\<close> that camera.cc initialises and hands out.
  A C++ \<^verbatim>\<open>int\<close> is a 32-bit word.
\<close>

record Parameters =
  m_modelType :: ModelType
  m_nIntrinsics :: "32 word"
  m_cameraName :: string
  m_imageWidth :: "32 word"
  m_imageHeight :: "32 word"

text \<open>
  The \<^verbatim>\<open>switch\<close> of both constructors (lines 24-34 and 43-53): the cases in the
  order of the source, MEI sharing the \<^verbatim>\<open>default\<close> branch.
\<close>

fun switch_nIntrinsics :: "ModelType \<Rightarrow> 32 word" where
  "switch_nIntrinsics KANNALA_BRANDT = 8"
| "switch_nIntrinsics PINHOLE = 8"
| "switch_nIntrinsics _ = 9"

text \<open>\<^verbatim>\<open>Parameters(ModelType modelType)\<close>: the name is default-constructed, the
  image size is zero.\<close>

definition Parameters_of_model :: "ModelType \<Rightarrow> Parameters" where
  "Parameters_of_model modelType =
     \<lparr> m_modelType = modelType,
       m_nIntrinsics = switch_nIntrinsics modelType,
       m_cameraName = [],
       m_imageWidth = 0,
       m_imageHeight = 0 \<rparr>"

text \<open>\<^verbatim>\<open>Parameters(ModelType modelType, const std::string &cameraName, int w, int h)\<close>.\<close>

definition Parameters_named :: "ModelType \<Rightarrow> string \<Rightarrow> 32 word \<Rightarrow> 32 word \<Rightarrow> Parameters" where
  "Parameters_named modelType cameraName w h =
     \<lparr> m_modelType = modelType,
       m_nIntrinsics = switch_nIntrinsics modelType,
       m_cameraName = cameraName,
       m_imageWidth = w,
       m_imageHeight = h \<rparr>"

text \<open>The \<^verbatim>\<open>const\<close> accessors return the fields.\<close>

definition modelType :: "Parameters \<Rightarrow> ModelType" where
  "modelType p = m_modelType p"

definition cameraName :: "Parameters \<Rightarrow> string" where
  "cameraName p = m_cameraName p"

definition imageWidth :: "Parameters \<Rightarrow> 32 word" where
  "imageWidth p = m_imageWidth p"

definition imageHeight :: "Parameters \<Rightarrow> 32 word" where
  "imageHeight p = m_imageHeight p"

definition nIntrinsics :: "Parameters \<Rightarrow> 32 word" where
  "nIntrinsics p = m_nIntrinsics p"

text \<open>
  The non-\<^verbatim>\<open>const\<close> accessors \<^verbatim>\<open>modelType()\<close>, \<^verbatim>\<open>cameraName()\<close>,
  \<^verbatim>\<open>imageWidth()\<close> and \<^verbatim>\<open>imageHeight()\<close> return a reference to the field, so
  a caller can store through them: \<^verbatim>\<open>params.modelType() = MEI;\<close>. Each store
  touches the one field behind the reference. There is no such accessor for
  \<^verbatim>\<open>m_nIntrinsics\<close>. A call of an accessor that only reads leaves the object as it is.
\<close>

datatype accessor_call =
    Store_modelType ModelType
  | Store_cameraName string
  | Store_imageWidth "32 word"
  | Store_imageHeight "32 word"
  | Read_modelType
  | Read_cameraName
  | Read_imageWidth
  | Read_imageHeight
  | Read_nIntrinsics

fun call_accessor :: "accessor_call \<Rightarrow> Parameters \<Rightarrow> Parameters" where
  "call_accessor (Store_modelType t) p = p\<lparr>m_modelType := t\<rparr>"
| "call_accessor (Store_cameraName n) p = p\<lparr>m_cameraName := n\<rparr>"
| "call_accessor (Store_imageWidth w) p = p\<lparr>m_imageWidth := w\<rparr>"
| "call_accessor (Store_imageHeight h) p = p\<lparr>m_imageHeight := h\<rparr>"
| "call_accessor _ p = p"

fun call_accessors :: "accessor_call list \<Rightarrow> Parameters \<Rightarrow> Parameters" where
  "call_accessors [] p = p"
| "call_accessors (c # cs) p = call_accessors cs (call_accessor c p)"

text \<open>The spec's table of intrinsic counts: 8 for PINHOLE and KANNALA_BRANDT, 9 for MEI.\<close>

definition intrinsics_of_model :: "ModelType \<Rightarrow> 32 word" where
  "intrinsics_of_model t = (if t = MEI then 9 else 8)"

fun stores_modelType :: "accessor_call \<Rightarrow> bool" where
  "stores_modelType (Store_modelType t) = True"
| "stores_modelType _ = False"

subsection \<open>Numbers, points and the linear algebra the algorithms use\<close>

text \<open>
  Coordinates are read as real numbers: a \<^verbatim>\<open>float\<close> and a \<^verbatim>\<open>double\<close> are
  both a \<^typ>\<open>real\<close>, so the conversions between the two precisions
  (\<^verbatim>\<open>p << imagePoints.at(i).x\<close>, \<^verbatim>\<open>cv::Point2f(p(0), p(1))\<close>) are the
  identity and rounding is not part of the model. A \<^verbatim>\<open>cv::Point2f\<close> and a
  2-vector are pairs, a \<^verbatim>\<open>cv::Point3f\<close> and a 3-vector are triples, a 3x3 matrix is
  the triple of its rows.
\<close>

type_synonym Point2f = "real \<times> real"
type_synonym Point3f = "real \<times> real \<times> real"
type_synonym Vector2d = "real \<times> real"
type_synonym Vector3d = "real \<times> real \<times> real"
type_synonym Matrix3d = "Vector3d \<times> Vector3d \<times> Vector3d"

text \<open>
  Modelled from the spec: the vector and matrix arithmetic and the Euclidean norm of the
  linear-algebra library (\<^verbatim>\<open>ctain\<close>, \<^verbatim>\<open>cv::norm\<close>), which is not part of
  camera.cc: matrix-vector product, vector sum and difference, the norm of a 2-vector and
  the identity matrix \<^verbatim>\<open>cv::Mat::eye(3, 3, CV_64F)\<close>.
\<close>

fun mat_vec :: "Matrix3d \<Rightarrow> Vector3d \<Rightarrow> Vector3d" where
  "mat_vec ((r00, r01, r02), (r10, r11, r12), (r20, r21, r22)) (x, y, z) =
     (r00 * x + r01 * y + r02 * z,
      r10 * x + r11 * y + r12 * z,
      r20 * x + r21 * y + r22 * z)"

fun vec3_add :: "Vector3d \<Rightarrow> Vector3d \<Rightarrow> Vector3d" where
  "vec3_add (x, y, z) (tx, ty, tz) = (x + tx, y + ty, z + tz)"

fun vec2_sub :: "Vector2d \<Rightarrow> Vector2d \<Rightarrow> Vector2d" where
  "vec2_sub (x, y) (u, v) = (x - u, y - v)"

fun vec2_norm :: "Vector2d \<Rightarrow> real" where
  "vec2_norm (x, y) = sqrt (x * x + y * y)"

definition eye3 :: Matrix3d where
  "eye3 = ((1, 0, 0), (0, 1, 0), (0, 0, 1))"

text \<open>
  Division of doubles. With a divisor that is zero the quotient of the machine is an
  infinity or NaN, which is no real number: the model returns \<open>None\<close> there, and
  \<open>Some\<close> of the real quotient otherwise.
\<close>

definition fdiv :: "real \<Rightarrow> real \<Rightarrow> real option" where
  "fdiv a b = (if b = 0 then None else Some (a / b))"

text \<open>\<^verbatim>\<open>P / s\<close> on a 3-vector divides every component by the scalar.\<close>

fun vec3_div :: "Vector3d \<Rightarrow> real \<Rightarrow> real option \<times> real option \<times> real option" where
  "vec3_div (x, y, z) s = (fdiv x s, fdiv y s, fdiv z s)"

text \<open>\<^verbatim>\<open>P(0)\<close>, \<^verbatim>\<open>P(1)\<close> and \<^verbatim>\<open>P(2)\<close> of a 3-vector.\<close>

fun elem0 :: "'a \<times> 'a \<times> 'a \<Rightarrow> 'a" where
  "elem0 (x, y, z) = x"

fun elem1 :: "'a \<times> 'a \<times> 'a \<Rightarrow> 'a" where
  "elem1 (x, y, z) = y"

fun elem2 :: "'a \<times> 'a \<times> 'a \<Rightarrow> 'a" where
  "elem2 (x, y, z) = z"

text \<open>\<^verbatim>\<open>std::vector::at\<close> throws \<^verbatim>\<open>std::out_of_range\<close> past the end.\<close>

datatype error = OutOfRange

definition vector_at :: "'a list \<Rightarrow> nat \<Rightarrow> error + 'a" where
  "vector_at xs i = (if i < length xs then Inr (xs ! i) else Inl OutOfRange)"

subsection \<open>The abstract camera\<close>

text \<open>
  A \<^verbatim>\<open>Camera\<close> holds the mask \<^verbatim>\<open>m_mask\<close>; its two pure virtual transforms
  \<^verbatim>\<open>spaceToPlane\<close> and \<^verbatim>\<open>liftProjective\<close> are supplied by the concrete lens
  model and are fields of the record, each a function from its input point to the point it
  writes into its output argument. The record is extensible: a concrete model adds its own
  state. The mask is a \<^verbatim>\<open>cv::Mat\<close>, whose content no function of camera.cc looks
  at, so its type is left open.
\<close>

record 'mask Camera =
  m_mask :: 'mask
  spaceToPlane :: "Vector3d \<Rightarrow> Vector2d"
  liftProjective :: "Vector2d \<Rightarrow> Vector3d"

text \<open>
  \<^verbatim>\<open>mask()\<close> returns the mask, or a reference through which a caller replaces
  it (\<open>mask\<close> is a constant of the word library, hence the longer name).
\<close>

definition camera_mask :: "('mask, 'more) Camera_scheme \<Rightarrow> 'mask" where
  "camera_mask cam = m_mask cam"

definition store_mask ::
  "'mask \<Rightarrow> ('mask, 'more) Camera_scheme \<Rightarrow> ('mask, 'more) Camera_scheme" where
  "store_mask m cam = cam\<lparr>m_mask := m\<rparr>"

subsection \<open>estimateExtrinsics\<close>

text \<open>
  A point of \<^verbatim>\<open>Ms\<close>: the two quotients \<^verbatim>\<open>P(0) / P(2)\<close> and
  \<^verbatim>\<open>P(1) / P(2)\<close>. The vector is created with \<^verbatim>\<open>imagePoints.size()\<close>
  points \<open>(0, 0)\<close>.
\<close>

type_synonym NormalizedPoint = "real option \<times> real option"

text \<open>
  The loop of lines 106-117, from index \<open>i\<close> on. \<^verbatim>\<open>Ms.at(i)\<close> is inside the
  bound of the loop; \<^verbatim>\<open>imagePoints.at(i)\<close> is checked.
\<close>

function estimateExtrinsics_loop ::
  "('mask, 'more) Camera_scheme \<Rightarrow> Point2f list \<Rightarrow> nat \<Rightarrow> NormalizedPoint list
     \<Rightarrow> error + NormalizedPoint list" where
  "estimateExtrinsics_loop cam imagePoints i Ms =
     (if i < length Ms then
        (case vector_at imagePoints i of
           Inl e \<Rightarrow> Inl e
         | Inr p \<Rightarrow>
             (let P = liftProjective cam p;
                  P' = vec3_div P (elem2 P)
              in estimateExtrinsics_loop cam imagePoints (Suc i) (Ms[i := (elem0 P', elem1 P')])))
      else Inr Ms)"
  by pat_completeness auto
termination
  by (relation "measure (\<lambda>(cam, imagePoints, i, Ms). length Ms - i)") auto

declare estimateExtrinsics_loop.simps [simp del]

text \<open>
  \<^verbatim>\<open>cv::solvePnP\<close> is the external solver: a parameter, from the object points, the
  image points, the camera matrix and the distortion coefficients to what it leaves in
  \<^verbatim>\<open>rvec\<close> and \<^verbatim>\<open>tvec\<close>. \<^verbatim>\<open>cv::noArray()\<close> is the empty list of
  coefficients.
\<close>

definition estimateExtrinsics ::
  "('mask, 'more) Camera_scheme
     \<Rightarrow> (Point3f list \<Rightarrow> NormalizedPoint list \<Rightarrow> Matrix3d \<Rightarrow> real list \<Rightarrow> 'pose)
     \<Rightarrow> Point3f list \<Rightarrow> Point2f list \<Rightarrow> error + 'pose" where
  "estimateExtrinsics cam solvePnP objectPoints imagePoints =
     (case estimateExtrinsics_loop cam imagePoints 0
             (replicate (length imagePoints) (Some 0, Some 0)) of
        Inl e \<Rightarrow> Inl e
      | Inr Ms \<Rightarrow> Inr (solvePnP objectPoints Ms eye3 []))"

subsection \<open>reprojectionDist and the single-point reprojectionError\<close>

definition reprojectionDist :: "('mask, 'more) Camera_scheme \<Rightarrow> Vector3d \<Rightarrow> Vector3d \<Rightarrow> real" where
  "reprojectionDist cam P1 P2 =
     (let p1 = spaceToPlane cam P1;
          p2 = spaceToPlane cam P2
      in vec2_norm (vec2_sub p1 p2))"

text \<open>
  \<^verbatim>\<open>camera_q.toRotationMatrix()\<close> belongs to the quaternion type of the
  linear-algebra library: a parameter, from the quaternion to its matrix.
\<close>

definition reprojectionError_point ::
  "('mask, 'more) Camera_scheme \<Rightarrow> ('quat \<Rightarrow> Matrix3d) \<Rightarrow> Vector3d \<Rightarrow> 'quat \<Rightarrow> Vector3d
     \<Rightarrow> Vector2d \<Rightarrow> real" where
  "reprojectionError_point cam toRotationMatrix P camera_q camera_t observed_p =
     (let P_cam = vec3_add (mat_vec (toRotationMatrix camera_q) P) camera_t;
          p = spaceToPlane cam P_cam;
          res = vec2_sub p observed_p
      in vec2_norm res)"

subsection \<open>projectPoints\<close>

text \<open>
  The loop of lines 204-217, from index \<open>i\<close> on, with the matrix \<open>R\<close> and the vector
  \<open>t\<close> that were built before it. \<^verbatim>\<open>objectPoints.at(i)\<close> is inside the bound of
  the loop. \<^verbatim>\<open>push_back\<close> appends to the vector of the caller.
\<close>

function projectPoints_loop ::
  "('mask, 'more) Camera_scheme \<Rightarrow> Matrix3d \<Rightarrow> Vector3d \<Rightarrow> Point3f list \<Rightarrow> nat
     \<Rightarrow> Point2f list \<Rightarrow> Point2f list" where
  "projectPoints_loop cam R t objectPoints i imagePoints =
     (if i < length objectPoints then
        (let objectPoint = objectPoints ! i;
             P = vec3_add (mat_vec R objectPoint) t;
             p = spaceToPlane cam P
         in projectPoints_loop cam R t objectPoints (Suc i) (imagePoints @ [p]))
      else imagePoints)"
  by pat_completeness auto
termination
  by (relation "measure (\<lambda>(cam, R, t, objectPoints, i, imagePoints). length objectPoints - i)")
    auto

declare projectPoints_loop.simps [simp del]

text \<open>
  \<^verbatim>\<open>cv::Rodrigues\<close> is external: a parameter, from the rotation vector to the 3x3
  matrix it writes into \<^verbatim>\<open>R0\<close>. It is applied once, before the loop, and the loop
  receives the matrix. \<^verbatim>\<open>tvec\<close> is read at its three entries.
  \<^verbatim>\<open>reserve\<close> does not change the content of the vector. The last argument is the
  content of \<^verbatim>\<open>imagePoints\<close> at the call, the result its content at the return.
\<close>

definition projectPoints ::
  "('mask, 'more) Camera_scheme \<Rightarrow> (Vector3d \<Rightarrow> Matrix3d) \<Rightarrow> Point3f list \<Rightarrow> Vector3d
     \<Rightarrow> Vector3d \<Rightarrow> Point2f list \<Rightarrow> Point2f list" where
  "projectPoints cam Rodrigues objectPoints rvec tvec imagePoints =
     (let R0 = Rodrigues rvec;
          R = R0;
          t = tvec
      in projectPoints_loop cam R t objectPoints 0 imagePoints)"

subsection \<open>The multi-view reprojectionError\<close>

text \<open>
  The inner loop of lines 159-161, from index \<open>j\<close> on: \<^verbatim>\<open>imagePoints.at(i).at(j)\<close>
  is inside the bound of the loop, \<^verbatim>\<open>estImagePoints.at(j)\<close> is checked.
\<close>

function reprojectionError_points ::
  "Point2f list \<Rightarrow> Point2f list \<Rightarrow> nat \<Rightarrow> real \<Rightarrow> error + real" where
  "reprojectionError_points viewPoints estImagePoints j err =
     (if j < length viewPoints then
        (case vector_at estImagePoints j of
           Inl e \<Rightarrow> Inl e
         | Inr est \<Rightarrow>
             reprojectionError_points viewPoints estImagePoints (Suc j)
               (err + vec2_norm (vec2_sub (viewPoints ! j) est)))
      else Inr err)"
  by pat_completeness auto
termination
  by (relation "measure (\<lambda>(viewPoints, estImagePoints, j, err). length viewPoints - j)") auto

declare reprojectionError_points.simps [simp del]

text \<open>
  The state of the outer loop: \<^verbatim>\<open>pointsSoFar\<close>, \<^verbatim>\<open>totalErr\<close> and the matrix
  \<^verbatim>\<open>perViewErrors\<close>, one entry for each view.
\<close>

record ViewLoop =
  pointsSoFar :: nat
  totalErr :: real
  perViewErrors :: "real option list"

text \<open>
  The loop of lines 150-168, from view \<open>i\<close> on. \<^verbatim>\<open>objectPoints.at(i)\<close> is inside
  the bound \<^verbatim>\<open>imageCount\<close> of the loop; \<^verbatim>\<open>imagePoints.at(i)\<close>,
  \<^verbatim>\<open>rvecs.at(i)\<close> and \<^verbatim>\<open>tvecs.at(i)\<close> are checked. Every view projects into
  a fresh, empty \<^verbatim>\<open>estImagePoints\<close>.
\<close>

function reprojectionError_views ::
  "('mask, 'more) Camera_scheme \<Rightarrow> (Vector3d \<Rightarrow> Matrix3d) \<Rightarrow> Point3f list list
     \<Rightarrow> Point2f list list \<Rightarrow> Vector3d list \<Rightarrow> Vector3d list \<Rightarrow> bool \<Rightarrow> nat \<Rightarrow> ViewLoop
     \<Rightarrow> error + ViewLoop" where
  "reprojectionError_views cam Rodrigues objectPoints imagePoints rvecs tvecs
       computePerViewErrors i s =
     (if i < length objectPoints then
        (case vector_at imagePoints i of
           Inl e \<Rightarrow> Inl e
         | Inr viewPoints \<Rightarrow>
             (case vector_at rvecs i of
                Inl e \<Rightarrow> Inl e
              | Inr rvec \<Rightarrow>
                  (case vector_at tvecs i of
                     Inl e \<Rightarrow> Inl e
                   | Inr tvec \<Rightarrow>
                       (let pointCount = length viewPoints;
                            estImagePoints =
                              projectPoints cam Rodrigues (objectPoints ! i) rvec tvec []
                        in case reprojectionError_points viewPoints estImagePoints 0 0 of
                             Inl e \<Rightarrow> Inl e
                           | Inr err \<Rightarrow>
                               reprojectionError_views cam Rodrigues objectPoints imagePoints
                                 rvecs tvecs computePerViewErrors (Suc i)
                                 \<lparr> pointsSoFar = pointsSoFar s + pointCount,
                                   totalErr = totalErr s + err,
                                   perViewErrors =
                                     (if computePerViewErrors
                                      then (perViewErrors s)[i := fdiv err (real pointCount)]
                                      else perViewErrors s) \<rparr>))))
      else Inr s)"
  by pat_completeness auto
termination
  by (relation "measure (\<lambda>(cam, Rodrigues, objectPoints, imagePoints, rvecs, tvecs,
        computePerViewErrors, i, s). length objectPoints - i)") auto

declare reprojectionError_views.simps [simp del]

text \<open>
  \<^verbatim>\<open>reprojectionError\<close> on views. \<^verbatim>\<open>computePerViewErrors\<close> is
  \<^verbatim>\<open>_perViewErrors.needed()\<close>: when it holds, the matrix is created with one entry
  for each view, each still without a number and each written by its view; otherwise the
  matrix stays empty. The result is the returned quotient and the matrix.
  \<^verbatim>\<open>imageCount\<close> is \<^verbatim>\<open>objectPoints.size()\<close> as an \<^verbatim>\<open>int\<close>; the
  model takes the size itself, which the conversion keeps below \<open>2\<^sup>3\<^sup>1\<close> views.
\<close>

definition reprojectionError ::
  "('mask, 'more) Camera_scheme \<Rightarrow> (Vector3d \<Rightarrow> Matrix3d) \<Rightarrow> Point3f list list
     \<Rightarrow> Point2f list list \<Rightarrow> Vector3d list \<Rightarrow> Vector3d list \<Rightarrow> bool
     \<Rightarrow> error + (real option \<times> real option list)" where
  "reprojectionError cam Rodrigues objectPoints imagePoints rvecs tvecs computePerViewErrors =
     (let imageCount = length objectPoints
      in case reprojectionError_views cam Rodrigues objectPoints imagePoints rvecs tvecs
                computePerViewErrors 0
                \<lparr> pointsSoFar = 0, totalErr = 0,
                  perViewErrors = (if computePerViewErrors then replicate imageCount None else []) \<rparr> of
           Inl e \<Rightarrow> Inl e
         | Inr s \<Rightarrow> Inr (fdiv (totalErr s) (real (pointsSoFar s)), perViewErrors s))"

subsection \<open>The error metrics in double arithmetic\<close>

text \<open>
  The results of \<^verbatim>\<open>reprojectionDist\<close> and of \<^verbatim>\<open>reprojectionError\<close> are
  doubles, which the sums and quotients of lines 158-170 round and which are no numbers
  where a lens writes none. For the claims about these values the functions are
  transcribed a second time, in the arithmetic of the machine.

  \<open>binary64\<close> rounds a real number to the nearest double, ties to the even significand:
  53 significant bits, the exponent taken from the binade of the number. The range of the
  exponent is not bounded, so overflow and subnormal numbers are left out.
\<close>

definition binade :: "real \<Rightarrow> int" where
  "binade x = \<lfloor>log 2 \<bar>x\<bar>\<rfloor>"

definition round_half_even :: "real \<Rightarrow> int" where
  "round_half_even y =
     (let f = \<lfloor>y\<rfloor>; r = y - of_int f
      in if r < 1 / 2 then f else if 1 / 2 < r then f + 1 else if even f then f else f + 1)"

definition binary64 :: "real \<Rightarrow> real" where
  "binary64 x =
     (if x = 0 then 0
      else (let u = 2 powr of_int (binade x - 52)
            in u * of_int (round_half_even (x / u))))"

text \<open>
  A double is \<open>Some\<close> of the number it holds, or \<open>None\<close> when it is NaN or an
  infinity. \<^verbatim>\<open>a += b\<close> and \<^verbatim>\<open>a / n\<close> with a count \<open>n\<close> (a
  \<^verbatim>\<open>size_t\<close>, converted without rounding below \<open>2\<^sup>5\<^sup>3\<close>) round their
  result; they give no number from an operand that is none, and from a count of zero.
\<close>

definition dadd :: "real option \<Rightarrow> real option \<Rightarrow> real option" where
  "dadd a b =
     (case a of
        None \<Rightarrow> None
      | Some x \<Rightarrow> (case b of None \<Rightarrow> None | Some y \<Rightarrow> Some (binary64 (x + y))))"

definition ddiv :: "real option \<Rightarrow> nat \<Rightarrow> real option" where
  "ddiv a n =
     (case a of
        None \<Rightarrow> None
      | Some x \<Rightarrow> if n = 0 then None else Some (binary64 (x / real n)))"

text \<open>
  A lens in the arithmetic of the machine: the camera, and the camera-frame points for which
  its \<^verbatim>\<open>spaceToPlane\<close> writes two numbers; there the field \<open>spaceToPlane\<close> is
  the pixel point it writes.
\<close>

record 'mask Lens = "'mask Camera" +
  spaceToPlane_numbers :: "Vector3d \<Rightarrow> bool"

definition spaceToPlane_double :: "('mask, 'more) Lens_scheme \<Rightarrow> Vector3d \<Rightarrow> Vector2d option" where
  "spaceToPlane_double lens P =
     (if spaceToPlane_numbers lens P then Some (spaceToPlane lens P) else None)"

text \<open>
  Modelled from the spec: the Euclidean norm of the difference of two pixel points, which
  is \<^verbatim>\<open>(p1 - p2).norm()\<close> and \<^verbatim>\<open>cv::norm(a - b)\<close> of the libraries, as the
  double they return: the norm rounded, and no number when a coordinate is none.
\<close>

definition difference_norm :: "Vector2d option \<Rightarrow> Vector2d option \<Rightarrow> real option" where
  "difference_norm p q =
     (case p of
        None \<Rightarrow> None
      | Some a \<Rightarrow>
          (case q of None \<Rightarrow> None | Some b \<Rightarrow> Some (binary64 (vec2_norm (vec2_sub a b)))))"

text \<open>\<^verbatim>\<open>reprojectionDist\<close> and the single-point \<^verbatim>\<open>reprojectionError\<close>.\<close>

definition reprojectionDist_double ::
  "('mask, 'more) Lens_scheme \<Rightarrow> Vector3d \<Rightarrow> Vector3d \<Rightarrow> real option" where
  "reprojectionDist_double lens P1 P2 =
     (let p1 = spaceToPlane_double lens P1;
          p2 = spaceToPlane_double lens P2
      in difference_norm p1 p2)"

definition reprojectionError_point_double ::
  "('mask, 'more) Lens_scheme \<Rightarrow> ('quat \<Rightarrow> Matrix3d) \<Rightarrow> Vector3d \<Rightarrow> 'quat \<Rightarrow> Vector3d
     \<Rightarrow> Vector2d \<Rightarrow> real option" where
  "reprojectionError_point_double lens toRotationMatrix P camera_q camera_t observed_p =
     (let P_cam = vec3_add (mat_vec (toRotationMatrix camera_q) P) camera_t;
          p = spaceToPlane_double lens P_cam
      in difference_norm p (Some observed_p))"

text \<open>\<^verbatim>\<open>projectPoints\<close>, with the pixel points as the lens writes them.\<close>

function projectPoints_double_loop ::
  "('mask, 'more) Lens_scheme \<Rightarrow> Matrix3d \<Rightarrow> Vector3d \<Rightarrow> Point3f list \<Rightarrow> nat
     \<Rightarrow> Vector2d option list \<Rightarrow> Vector2d option list" where
  "projectPoints_double_loop lens R t objectPoints i imagePoints =
     (if i < length objectPoints then
        (let objectPoint = objectPoints ! i;
             P = vec3_add (mat_vec R objectPoint) t;
             p = spaceToPlane_double lens P
         in projectPoints_double_loop lens R t objectPoints (Suc i) (imagePoints @ [p]))
      else imagePoints)"
  by pat_completeness auto
termination
  by (relation "measure (\<lambda>(lens, R, t, objectPoints, i, imagePoints). length objectPoints - i)")
    auto

declare projectPoints_double_loop.simps [simp del]

definition projectPoints_double ::
  "('mask, 'more) Lens_scheme \<Rightarrow> (Vector3d \<Rightarrow> Matrix3d) \<Rightarrow> Point3f list \<Rightarrow> Vector3d
     \<Rightarrow> Vector3d \<Rightarrow> Vector2d option list \<Rightarrow> Vector2d option list" where
  "projectPoints_double lens Rodrigues objectPoints rvec tvec imagePoints =
     (let R0 = Rodrigues rvec;
          R = R0;
          t = tvec
      in projectPoints_double_loop lens R t objectPoints 0 imagePoints)"

text \<open>
  The multi-view \<^verbatim>\<open>reprojectionError\<close>: the loops of lines 150-168 and 159-161 as
  above, with \<^verbatim>\<open>err += cv::norm(...)\<close>, \<^verbatim>\<open>err / pointCount\<close>,
  \<^verbatim>\<open>totalErr += err\<close> and \<^verbatim>\<open>totalErr / pointsSoFar\<close> in doubles.
\<close>

function reprojectionError_points_double ::
  "Point2f list \<Rightarrow> Vector2d option list \<Rightarrow> nat \<Rightarrow> real option \<Rightarrow> error + real option" where
  "reprojectionError_points_double viewPoints estImagePoints j err =
     (if j < length viewPoints then
        (case vector_at estImagePoints j of
           Inl e \<Rightarrow> Inl e
         | Inr est \<Rightarrow>
             reprojectionError_points_double viewPoints estImagePoints (Suc j)
               (dadd err (difference_norm (Some (viewPoints ! j)) est)))
      else Inr err)"
  by pat_completeness auto
termination
  by (relation "measure (\<lambda>(viewPoints, estImagePoints, j, err). length viewPoints - j)") auto

declare reprojectionError_points_double.simps [simp del]

record ViewLoop_double =
  d_pointsSoFar :: nat
  d_totalErr :: "real option"
  d_perViewErrors :: "real option list"

function reprojectionError_views_double ::
  "('mask, 'more) Lens_scheme \<Rightarrow> (Vector3d \<Rightarrow> Matrix3d) \<Rightarrow> Point3f list list
     \<Rightarrow> Point2f list list \<Rightarrow> Vector3d list \<Rightarrow> Vector3d list \<Rightarrow> bool \<Rightarrow> nat
     \<Rightarrow> ViewLoop_double \<Rightarrow> error + ViewLoop_double" where
  "reprojectionError_views_double lens Rodrigues objectPoints imagePoints rvecs tvecs
       computePerViewErrors i s =
     (if i < length objectPoints then
        (case vector_at imagePoints i of
           Inl e \<Rightarrow> Inl e
         | Inr viewPoints \<Rightarrow>
             (case vector_at rvecs i of
                Inl e \<Rightarrow> Inl e
              | Inr rvec \<Rightarrow>
                  (case vector_at tvecs i of
                     Inl e \<Rightarrow> Inl e
                   | Inr tvec \<Rightarrow>
                       (let pointCount = length viewPoints;
                            estImagePoints =
                              projectPoints_double lens Rodrigues (objectPoints ! i) rvec tvec []
                        in case reprojectionError_points_double viewPoints estImagePoints 0
                                  (Some 0) of
                             Inl e \<Rightarrow> Inl e
                           | Inr err \<Rightarrow>
                               reprojectionError_views_double lens Rodrigues objectPoints
                                 imagePoints rvecs tvecs computePerViewErrors (Suc i)
                                 \<lparr> d_pointsSoFar = d_pointsSoFar s + pointCount,
                                   d_totalErr = dadd (d_totalErr s) err,
                                   d_perViewErrors =
                                     (if computePerViewErrors
                                      then (d_perViewErrors s)[i := ddiv err pointCount]
                                      else d_perViewErrors s) \<rparr>))))
      else Inr s)"
  by pat_completeness auto
termination
  by (relation "measure (\<lambda>(lens, Rodrigues, objectPoints, imagePoints, rvecs, tvecs,
        computePerViewErrors, i, s). length objectPoints - i)") auto

declare reprojectionError_views_double.simps [simp del]

definition reprojectionError_double ::
  "('mask, 'more) Lens_scheme \<Rightarrow> (Vector3d \<Rightarrow> Matrix3d) \<Rightarrow> Point3f list list
     \<Rightarrow> Point2f list list \<Rightarrow> Vector3d list \<Rightarrow> Vector3d list \<Rightarrow> bool
     \<Rightarrow> error + (real option \<times> real option list)" where
  "reprojectionError_double lens Rodrigues objectPoints imagePoints rvecs tvecs
       computePerViewErrors =
     (let imageCount = length objectPoints
      in case reprojectionError_views_double lens Rodrigues objectPoints imagePoints rvecs tvecs
                computePerViewErrors 0
                \<lparr> d_pointsSoFar = 0, d_totalErr = Some 0,
                  d_perViewErrors =
                    (if computePerViewErrors then replicate imageCount None else []) \<rparr> of
           Inl e \<Rightarrow> Inl e
         | Inr s \<Rightarrow> Inr (ddiv (d_totalErr s) (d_pointsSoFar s), d_perViewErrors s))"

subsection \<open>The algorithms in the words of the specification\<close>

text \<open>
  Pose estimation: the lifted ray divided by its third component, the idealized 2D point
  made of the first two quotients, and the same point when every quotient is a number.
\<close>

definition normalized_ray ::
  "('mask, 'more) Camera_scheme \<Rightarrow> Point2f \<Rightarrow> real option \<times> real option \<times> real option" where
  "normalized_ray cam p =
     (case liftProjective cam p of (x, y, z) \<Rightarrow> (fdiv x z, fdiv y z, fdiv z z))"

definition idealized_point :: "('mask, 'more) Camera_scheme \<Rightarrow> Point2f \<Rightarrow> NormalizedPoint" where
  "idealized_point cam p = (case normalized_ray cam p of (a, b, c) \<Rightarrow> (a, b))"


text \<open>
  Projection: a point is rotated, then translated into the camera frame, then projected.
  The pixel distance is the Euclidean distance of two pixel points.
\<close>

definition project_point ::
  "('mask, 'more) Camera_scheme \<Rightarrow> Matrix3d \<Rightarrow> Vector3d \<Rightarrow> Point3f \<Rightarrow> Point2f" where
  "project_point cam R t P = spaceToPlane cam (vec3_add (mat_vec R P) t)"

definition pixel_distance :: "Point2f \<Rightarrow> Point2f \<Rightarrow> real" where
  "pixel_distance p q = vec2_norm (vec2_sub p q)"

text \<open>
  Reprojection error of a view in doubles: the distances of its observed points to the
  projections of its object points; their sum, accumulated from 0 in the order of the
  points; then the same for view \<open>i\<close> of a collection, and the distances of all points
  of all views, view after view.
\<close>

definition double_sum :: "real option list \<Rightarrow> real option" where
  "double_sum ds = foldl dadd (Some 0) ds"

definition view_distances ::
  "('mask, 'more) Lens_scheme \<Rightarrow> (Vector3d \<Rightarrow> Matrix3d) \<Rightarrow> Point3f list \<Rightarrow> Point2f list
     \<Rightarrow> Vector3d \<Rightarrow> Vector3d \<Rightarrow> real option list" where
  "view_distances lens Rodrigues viewObjects viewPoints rvec tvec =
     map2 (\<lambda>p P. difference_norm (Some p)
              (spaceToPlane_double lens (vec3_add (mat_vec (Rodrigues rvec) P) tvec)))
       viewPoints viewObjects"

definition view_distances_at ::
  "('mask, 'more) Lens_scheme \<Rightarrow> (Vector3d \<Rightarrow> Matrix3d) \<Rightarrow> Point3f list list
     \<Rightarrow> Point2f list list \<Rightarrow> Vector3d list \<Rightarrow> Vector3d list \<Rightarrow> nat \<Rightarrow> real option list" where
  "view_distances_at lens Rodrigues objectPoints imagePoints rvecs tvecs i =
     view_distances lens Rodrigues (objectPoints ! i) (imagePoints ! i) (rvecs ! i) (tvecs ! i)"

definition view_error_at ::
  "('mask, 'more) Lens_scheme \<Rightarrow> (Vector3d \<Rightarrow> Matrix3d) \<Rightarrow> Point3f list list
     \<Rightarrow> Point2f list list \<Rightarrow> Vector3d list \<Rightarrow> Vector3d list \<Rightarrow> nat \<Rightarrow> real option" where
  "view_error_at lens Rodrigues objectPoints imagePoints rvecs tvecs i =
     double_sum (view_distances_at lens Rodrigues objectPoints imagePoints rvecs tvecs i)"

definition all_distances ::
  "('mask, 'more) Lens_scheme \<Rightarrow> (Vector3d \<Rightarrow> Matrix3d) \<Rightarrow> Point3f list list
     \<Rightarrow> Point2f list list \<Rightarrow> Vector3d list \<Rightarrow> Vector3d list \<Rightarrow> real option list" where
  "all_distances lens Rodrigues objectPoints imagePoints rvecs tvecs =
     concat (map (view_distances_at lens Rodrigues objectPoints imagePoints rvecs tvecs)
       [0..<length objectPoints])"

text \<open>
  The precondition of the multi-view error: every view has as many object points as image
  points, and there is a rotation and a translation for every view.
\<close>

definition aligned ::
  "Point3f list list \<Rightarrow> Point2f list list \<Rightarrow> Vector3d list \<Rightarrow> Vector3d list \<Rightarrow> bool" where
  "aligned objectPoints imagePoints rvecs tvecs =
     (list_all2 (\<lambda>viewObjects viewPoints. length viewObjects = length viewPoints)
        objectPoints imagePoints
      \<and> length rvecs = length objectPoints \<and> length tvecs = length objectPoints)"

text \<open>
  The lens writes numbers for every object point of every view, and the points it writes
  are the observed points.
\<close>

definition views_coincide ::
  "('mask, 'more) Lens_scheme \<Rightarrow> (Vector3d \<Rightarrow> Matrix3d) \<Rightarrow> Point3f list list
     \<Rightarrow> Point2f list list \<Rightarrow> Vector3d list \<Rightarrow> Vector3d list \<Rightarrow> bool" where
  "views_coincide lens Rodrigues objectPoints imagePoints rvecs tvecs =
     list_all
       (\<lambda>i. projectPoints_double lens Rodrigues (objectPoints ! i) (rvecs ! i) (tvecs ! i) [] =
            map Some (imagePoints ! i))
       [0..<length objectPoints]"

subsection \<open>Lens models and library functions for concrete inputs\<close>

text \<open>
  Two lens models on which the algorithms are evaluated: the pinhole of unit focal length
  without distortion, and the unified sphere model with mirror parameter 1 (the MEI
  model without distortion), whose lifted rays reach a forward component of zero on the
  circle of radius 1. The mask of both is the empty matrix.
\<close>

definition unit_pinhole :: "nat list list Camera" where
  "unit_pinhole =
     \<lparr> m_mask = [],
       spaceToPlane = (\<lambda>(x, y, z). (x / z, y / z)),
       liftProjective = (\<lambda>(u, v). (u, v, 1)) \<rparr>"

definition unit_sphere :: "nat list list Camera" where
  "unit_sphere =
     \<lparr> m_mask = [],
       spaceToPlane = (\<lambda>(x, y, z).
         (x / (z + sqrt (x * x + y * y + z * z)), y / (z + sqrt (x * x + y * y + z * z)))),
       liftProjective = (\<lambda>(u, v). (u, v, (1 - (u * u + v * v)) / 2)) \<rparr>"

text \<open>
  The pinhole of unit focal length as a lens: it divides by the third component, and so
  writes numbers for the points whose third component is not zero.
\<close>

definition pinhole_lens :: "nat list list Lens" where
  "pinhole_lens =
     \<lparr> m_mask = [],
       spaceToPlane = (\<lambda>(x, y, z). (x / z, y / z)),
       liftProjective = (\<lambda>(u, v). (u, v, 1)),
       spaceToPlane_numbers = (\<lambda>(x, y, z). z \<noteq> 0) \<rparr>"

text \<open>
  The rotation formula of Rodrigues, an instance of the parameter \<open>Rodrigues\<close>; the
  rotation matrix of a quaternion \<open>(w, x, y, z)\<close>, an instance of the parameter
  \<open>toRotationMatrix\<close>; and a solver that returns what it is handed.
\<close>

definition Rodrigues_formula :: "Vector3d \<Rightarrow> Matrix3d" where
  "Rodrigues_formula r =
     (case r of (rx, ry, rz) \<Rightarrow>
        (let theta = sqrt (rx * rx + ry * ry + rz * rz)
         in if theta = 0 then eye3
            else (let c = cos theta; s = sin theta; c1 = 1 - c;
                      x = rx / theta; y = ry / theta; z = rz / theta
                  in ((c + c1 * x * x, c1 * x * y - s * z, c1 * x * z + s * y),
                      (c1 * x * y + s * z, c + c1 * y * y, c1 * y * z - s * x),
                      (c1 * x * z - s * y, c1 * y * z + s * x, c + c1 * z * z)))))"

definition quaternion_matrix :: "real \<times> real \<times> real \<times> real \<Rightarrow> Matrix3d" where
  "quaternion_matrix q =
     (case q of (w, x, y, z) \<Rightarrow>
        ((1 - 2 * (y * y + z * z), 2 * (x * y - w * z), 2 * (x * z + w * y)),
         (2 * (x * y + w * z), 1 - 2 * (x * x + z * z), 2 * (y * z - w * x)),
         (2 * (x * z - w * y), 2 * (y * z + w * x), 1 - 2 * (x * x + y * y))))"

definition solver_arguments ::
  "Point3f list \<Rightarrow> NormalizedPoint list \<Rightarrow> Matrix3d \<Rightarrow> real list
     \<Rightarrow> Point3f list \<times> NormalizedPoint list \<times> Matrix3d \<times> real list" where
  "solver_arguments objectPoints Ms cameraMatrix distCoeffs =
     (objectPoints, Ms, cameraMatrix, distCoeffs)"

section \<open>Properties\<close>

subsection \<open>The parameter set\<close>

lemma call_accessor_nIntrinsics: "m_nIntrinsics (call_accessor c p) = m_nIntrinsics p"
  by (cases c) simp_all

lemma call_accessors_nIntrinsics: "m_nIntrinsics (call_accessors cs p) = m_nIntrinsics p"
  by (induction cs arbitrary: p) (simp_all add: call_accessor_nIntrinsics)

lemma call_accessor_modelType:
  "\<not> stores_modelType c \<Longrightarrow> m_modelType (call_accessor c p) = m_modelType p"
  by (cases c) simp_all

lemma call_accessors_modelType:
  "list_all (\<lambda>c. \<not> stores_modelType c) cs \<Longrightarrow>
   m_modelType (call_accessors cs p) = m_modelType p"
  by (induction cs arbitrary: p) (simp_all add: call_accessor_modelType)

lemma switch_nIntrinsics_table: "switch_nIntrinsics t = intrinsics_of_model t"
  by (cases t) (simp_all add: intrinsics_of_model_def)

text \<open>
  Claim C1, as amended. After construction and after any sequence of accessor calls,
  \<^verbatim>\<open>nIntrinsics()\<close> is the value that the constructor derived from its model tag:
  8 for PINHOLE and KANNALA_BRANDT, 9 for MEI. It agrees with the current
  \<^verbatim>\<open>modelType()\<close> as long as no call has stored a tag through the
  non-\<^verbatim>\<open>const\<close> accessor \<^verbatim>\<open>modelType()\<close>.
\<close>

theorem nIntrinsics_fixed_at_construction:
  "nIntrinsics (call_accessors cs (Parameters_of_model t)) = intrinsics_of_model t
   \<and> nIntrinsics (call_accessors cs (Parameters_named t name w h)) = intrinsics_of_model t
   \<and> (list_all (\<lambda>c. \<not> stores_modelType c) cs \<longrightarrow>
        nIntrinsics (call_accessors cs (Parameters_of_model t)) =
          intrinsics_of_model (modelType (call_accessors cs (Parameters_of_model t)))
        \<and> nIntrinsics (call_accessors cs (Parameters_named t name w h)) =
          intrinsics_of_model (modelType (call_accessors cs (Parameters_named t name w h))))"
  by (simp add: nIntrinsics_def modelType_def call_accessors_nIntrinsics
      call_accessors_modelType switch_nIntrinsics_table Parameters_of_model_def
      Parameters_named_def)

theorem nIntrinsics_fixed_at_construction_witness:
  "list_all (\<lambda>c. \<not> stores_modelType c)
     [Store_cameraName ''left'', Store_imageWidth 752, Read_modelType, Store_imageHeight 480]
   \<and> nIntrinsics (call_accessors
        [Store_cameraName ''left'', Store_imageWidth 752, Read_modelType, Store_imageHeight 480]
        (Parameters_of_model MEI)) = 9
   \<and> modelType (call_accessors
        [Store_cameraName ''left'', Store_imageWidth 752, Read_modelType, Store_imageHeight 480]
        (Parameters_of_model MEI)) = MEI
   \<and> nIntrinsics (call_accessors
        [Store_cameraName ''left'', Store_imageWidth 752, Read_modelType, Store_imageHeight 480]
        (Parameters_named MEI ''right'' 640 400)) = 9"
  using nIntrinsics_fixed_at_construction
    [of "[Store_cameraName ''left'', Store_imageWidth 752, Read_modelType, Store_imageHeight 480]"
      MEI "''right''" 640 400]
  by (simp add: intrinsics_of_model_def modelType_def Parameters_of_model_def)

text \<open>
  Claim C1 as stated fails: a store of MEI through \<^verbatim>\<open>modelType()\<close> into a
  parameter set constructed for PINHOLE leaves \<^verbatim>\<open>nIntrinsics()\<close> at 8.
\<close>

theorem nIntrinsics_diverges_counterexample:
  "modelType (call_accessors [Store_modelType MEI] (Parameters_of_model PINHOLE)) = MEI
   \<and> nIntrinsics (call_accessors [Store_modelType MEI] (Parameters_of_model PINHOLE)) = 8
   \<and> nIntrinsics (call_accessors [Store_modelType MEI] (Parameters_of_model PINHOLE)) \<noteq>
       intrinsics_of_model
         (modelType (call_accessors [Store_modelType MEI] (Parameters_of_model PINHOLE)))"
  by (simp add: modelType_def nIntrinsics_def Parameters_of_model_def intrinsics_of_model_def)

subsection \<open>The loops in closed form\<close>

lemma estimateExtrinsics_loop_eq:
  "length Ms = length imagePoints \<Longrightarrow> i \<le> length Ms \<Longrightarrow>
   estimateExtrinsics_loop cam imagePoints i Ms =
     Inr (take i Ms @ map (idealized_point cam) (drop i imagePoints))"
proof (induction "length Ms - i" arbitrary: i Ms)
  case 0
  then show ?case by (subst estimateExtrinsics_loop.simps) simp
next
  case (Suc n)
  then have lt: "i < length Ms" by simp
  have len: "length (Ms[i := idealized_point cam (imagePoints ! i)]) = length imagePoints"
    using Suc.prems by simp
  have n: "n = length (Ms[i := idealized_point cam (imagePoints ! i)]) - Suc i"
    using Suc.hyps(2) by simp
  have le: "Suc i \<le> length (Ms[i := idealized_point cam (imagePoints ! i)])"
    using lt by simp
  have step: "estimateExtrinsics_loop cam imagePoints i Ms =
      estimateExtrinsics_loop cam imagePoints (Suc i) (Ms[i := idealized_point cam (imagePoints ! i)])"
    using lt Suc.prems(1)
    by (subst estimateExtrinsics_loop.simps, cases "liftProjective cam (imagePoints ! i)")
      (simp add: vector_at_def idealized_point_def normalized_ray_def)
  have "take (Suc i) (Ms[i := idealized_point cam (imagePoints ! i)]) =
      take i Ms @ [idealized_point cam (imagePoints ! i)]"
    using lt by (simp add: take_Suc_conv_app_nth)
  moreover have "drop i imagePoints = imagePoints ! i # drop (Suc i) imagePoints"
    using lt Suc.prems(1) by (simp add: Cons_nth_drop_Suc)
  ultimately show ?case
    using Suc.hyps(1)[OF n len le] step by simp
qed

lemma projectPoints_loop_eq:
  "projectPoints_loop cam R t objectPoints i imagePoints =
     imagePoints @ map (\<lambda>P. spaceToPlane cam (vec3_add (mat_vec R P) t)) (drop i objectPoints)"
proof (induction "length objectPoints - i" arbitrary: i imagePoints)
  case 0
  then show ?case by (subst projectPoints_loop.simps) simp
next
  case (Suc n)
  then have lt: "i < length objectPoints" by simp
  have n: "n = length objectPoints - Suc i" using Suc.hyps(2) by simp
  have "drop i objectPoints = objectPoints ! i # drop (Suc i) objectPoints"
    using lt by (simp add: Cons_nth_drop_Suc)
  then show ?case
    using Suc.hyps(1)[OF n] lt
    by (subst projectPoints_loop.simps) simp
qed


lemma projectPoints_eq:
  "projectPoints cam Rodrigues objectPoints rvec tvec imagePoints =
     imagePoints @ map (project_point cam (Rodrigues rvec) tvec) objectPoints"
  by (simp add: projectPoints_def projectPoints_loop_eq project_point_def)

lemma aligned_view:
  assumes "aligned objectPoints imagePoints rvecs tvecs" "i < length objectPoints"
  shows "i < length imagePoints" "i < length rvecs" "i < length tvecs"
    "length (imagePoints ! i) = length (objectPoints ! i)"
  using assms by (auto simp: aligned_def list_all2_conv_all_nth)

subsection \<open>Batch projection and the error of a single point\<close>

lemma Rodrigues_formula_zero: "Rodrigues_formula (0, 0, 0) = eye3"
  by (simp add: Rodrigues_formula_def)

lemma mat_vec_eye3: "mat_vec eye3 P = P"
  by (cases P) (simp add: eye3_def)

lemma vec3_add_zero: "vec3_add P (0, 0, 0) = P"
  by (cases P) simp

text \<open>
  Claim C4. \<^verbatim>\<open>projectPoints\<close> appends one pixel point for every object point, in
  the order of the input: the point at index \<open>i\<close> is
  \<open>spaceToPlane (R * P\<^sub>i + t)\<close>, where \<open>R\<close> is the one matrix that the conversion of
  \<open>rvec\<close> gave before the loop. No point is skipped or treated apart, and of the
  conversion only its value at \<open>rvec\<close> is used.
\<close>

theorem projectPoints_one_per_point:
  "projectPoints cam Rodrigues objectPoints rvec tvec imagePoints =
     imagePoints @
     map (\<lambda>P. spaceToPlane cam (vec3_add (mat_vec (Rodrigues rvec) P) tvec)) objectPoints
   \<and> (\<forall>i<length objectPoints.
         projectPoints cam Rodrigues objectPoints rvec tvec imagePoints ! (length imagePoints + i) =
           spaceToPlane cam (vec3_add (mat_vec (Rodrigues rvec) (objectPoints ! i)) tvec))
   \<and> (Rodrigues' rvec = Rodrigues rvec \<longrightarrow>
         projectPoints cam Rodrigues' objectPoints rvec tvec imagePoints =
         projectPoints cam Rodrigues objectPoints rvec tvec imagePoints)"
  by (simp add: projectPoints_eq project_point_def nth_append)

theorem projectPoints_one_per_point_witness:
  "projectPoints unit_pinhole Rodrigues_formula [(1, 2, 1), (3, 4, 1), (0, 0, 3)] (0, 0, 0)
      (0, 0, 1) [(7, 7)] =
     [(7, 7), (1 / 2, 1), (3 / 2, 2), (0, 0)]
   \<and> projectPoints unit_pinhole Rodrigues_formula [(1, 2, 1), (3, 4, 1), (0, 0, 3)] (0, 0, 0)
        (0, 0, 1) [(7, 7)] ! (1 + 1) = (3 / 2, 2)
   \<and> projectPoints unit_pinhole (\<lambda>r. eye3) [(1, 2, 1), (3, 4, 1), (0, 0, 3)] (0, 0, 0)
        (0, 0, 1) [(7, 7)] =
      projectPoints unit_pinhole Rodrigues_formula [(1, 2, 1), (3, 4, 1), (0, 0, 3)] (0, 0, 0)
        (0, 0, 1) [(7, 7)]"
  using projectPoints_one_per_point
    [of unit_pinhole Rodrigues_formula "[(1, 2, 1), (3, 4, 1), (0, 0, 3)]" "(0, 0, 0)"
      "(0, 0, 1)" "[(7, 7)]" "\<lambda>r. eye3"]
  by (simp add: Rodrigues_formula_zero unit_pinhole_def eye3_def)

text \<open>
  Claim C9. \<^verbatim>\<open>projectPoints\<close> appends to the vector of the caller: from a vector
  of \<open>K\<close> points and \<open>N\<close> object points it returns \<open>K + N\<close> points, the first \<open>K\<close>
  unchanged, then the projections in the order of the input. The output is as long as the
  input exactly when the vector was empty at the call.
\<close>

theorem projectPoints_appends:
  "length (projectPoints cam Rodrigues objectPoints rvec tvec imagePoints) =
     length imagePoints + length objectPoints
   \<and> take (length imagePoints) (projectPoints cam Rodrigues objectPoints rvec tvec imagePoints) =
       imagePoints
   \<and> drop (length imagePoints) (projectPoints cam Rodrigues objectPoints rvec tvec imagePoints) =
       map (project_point cam (Rodrigues rvec) tvec) objectPoints
   \<and> (\<forall>k<length imagePoints.
         projectPoints cam Rodrigues objectPoints rvec tvec imagePoints ! k = imagePoints ! k)
   \<and> (\<forall>i<length objectPoints.
         projectPoints cam Rodrigues objectPoints rvec tvec imagePoints ! (length imagePoints + i) =
           project_point cam (Rodrigues rvec) tvec (objectPoints ! i))
   \<and> (length (projectPoints cam Rodrigues objectPoints rvec tvec imagePoints) =
         length objectPoints \<longleftrightarrow> imagePoints = [])"
  by (simp add: projectPoints_eq nth_append)

theorem projectPoints_appends_witness:
  "length (projectPoints unit_pinhole Rodrigues_formula [(2, 4, 2), (3, 0, 1)] (0, 0, 0)
      (0, 0, 0) [(5, 6), (7, 8)]) = 2 + 2
   \<and> projectPoints unit_pinhole Rodrigues_formula [(2, 4, 2), (3, 0, 1)] (0, 0, 0)
      (0, 0, 0) [(5, 6), (7, 8)] = [(5, 6), (7, 8), (1, 2), (3, 0)]
   \<and> projectPoints unit_pinhole Rodrigues_formula [(2, 4, 2), (3, 0, 1)] (0, 0, 0)
      (0, 0, 0) [(5, 6), (7, 8)] ! 1 = (7, 8)
   \<and> projectPoints unit_pinhole Rodrigues_formula [(2, 4, 2), (3, 0, 1)] (0, 0, 0)
      (0, 0, 0) [(5, 6), (7, 8)] ! (2 + 1) = (3, 0)"
proof -
  let ?out = "projectPoints unit_pinhole Rodrigues_formula [(2, 4, 2), (3, 0, 1)] (0, 0, 0)
      (0, 0, 0) [(5, 6), (7, 8)]"
  note appended = projectPoints_appends
    [of unit_pinhole Rodrigues_formula "[(2, 4, 2), (3, 0, 1)]" "(0, 0, 0)" "(0, 0, 0)"
      "[(5, 6), (7, 8)]"]
  have "take 2 ?out = [(5, 6), (7, 8)]"
    using appended by (simp add: numeral_2_eq_2)
  moreover have "drop 2 ?out = [(1, 2), (3, 0)]"
    using appended
    by (simp add: numeral_2_eq_2 project_point_def Rodrigues_formula_zero unit_pinhole_def
        eye3_def)
  moreover have "?out = take 2 ?out @ drop 2 ?out"
    by simp
  ultimately have "?out = [(5, 6), (7, 8), (1, 2), (3, 0)]"
    by simp
  then show ?thesis
    by simp
qed

text \<open>
  Claim C7. With the zero rotation vector, which the conversion of Rodrigues takes to the
  identity matrix, and the zero translation, \<^verbatim>\<open>projectPoints\<close> gives at every
  index the pixel point that \<^verbatim>\<open>spaceToPlane\<close> gives on the input point itself.
\<close>

theorem projectPoints_identity_pose:
  assumes "Rodrigues (0, 0, 0) = eye3"
  shows "projectPoints cam Rodrigues objectPoints (0, 0, 0) (0, 0, 0) [] =
           map (spaceToPlane cam) objectPoints
         \<and> (\<forall>i<length objectPoints.
               projectPoints cam Rodrigues objectPoints (0, 0, 0) (0, 0, 0) [] ! i =
                 spaceToPlane cam (objectPoints ! i))"
  using assms by (simp add: projectPoints_eq project_point_def mat_vec_eye3 vec3_add_zero)

theorem projectPoints_identity_pose_witness:
  "Rodrigues_formula (0, 0, 0) = eye3
   \<and> projectPoints unit_pinhole Rodrigues_formula [(2, 4, 2), (3, 0, 1), (1, 1, 4)] (0, 0, 0)
        (0, 0, 0) [] =
      [spaceToPlane unit_pinhole (2, 4, 2), spaceToPlane unit_pinhole (3, 0, 1),
       spaceToPlane unit_pinhole (1, 1, 4)]
   \<and> projectPoints unit_pinhole Rodrigues_formula [(2, 4, 2), (3, 0, 1), (1, 1, 4)] (0, 0, 0)
        (0, 0, 0) [] ! 2 = (1 / 4, 1 / 4)"
  using projectPoints_identity_pose
    [where Rodrigues = Rodrigues_formula and cam = unit_pinhole
      and objectPoints = "[(2, 4, 2), (3, 0, 1), (1, 1, 4)]"]
  by (simp add: Rodrigues_formula_zero unit_pinhole_def)

text \<open>
  Claim C5. The single-point \<^verbatim>\<open>reprojectionError\<close> rotates the point by the
  matrix of the quaternion, then translates it, projects it with
  \<^verbatim>\<open>spaceToPlane\<close> and returns the Euclidean distance of the pixel point to the
  observation.
\<close>

theorem reprojectionError_point_distance:
  "reprojectionError_point cam toRotationMatrix P camera_q camera_t observed_p =
     pixel_distance (spaceToPlane cam (vec3_add (mat_vec (toRotationMatrix camera_q) P) camera_t))
       observed_p
   \<and> reprojectionError_point cam toRotationMatrix (x, y, z) camera_q (tx, ty, tz) (ou, ov) =
      (case toRotationMatrix camera_q of
         ((r00, r01, r02), (r10, r11, r12), (r20, r21, r22)) \<Rightarrow>
           (case spaceToPlane cam
                   (r00 * x + r01 * y + r02 * z + tx,
                    r10 * x + r11 * y + r12 * z + ty,
                    r20 * x + r21 * y + r22 * z + tz) of
              (u, v) \<Rightarrow> sqrt ((u - ou)\<^sup>2 + (v - ov)\<^sup>2)))"
  by (simp add: reprojectionError_point_def pixel_distance_def power2_eq_square
      split: prod.splits)

lemma sqrt_25: "sqrt 25 = 5"
  by (rule real_sqrt_unique) simp_all

theorem reprojectionError_point_distance_witness:
  "quaternion_matrix (0, 0, 0, 1) = ((-1, 0, 0), (0, -1, 0), (0, 0, 1))
   \<and> reprojectionError_point unit_pinhole quaternion_matrix (2, 4, 1) (0, 0, 0, 1) (0, 0, 1)
       (2, 2) = 5"
  using reprojectionError_point_distance
    [of unit_pinhole quaternion_matrix "(2, 4, 1)" "(0, 0, 0, 1)" "(0, 0, 1)" "(2, 2)"
      2 4 1 0 0 1 2 2]
  by (simp add: quaternion_matrix_def unit_pinhole_def pixel_distance_def sqrt_25)

subsection \<open>Pose estimation\<close>

lemma estimateExtrinsics_eq:
  "estimateExtrinsics cam solvePnP objectPoints imagePoints =
     Inr (solvePnP objectPoints (map (idealized_point cam) imagePoints) eye3 [])"
  by (simp add: estimateExtrinsics_def estimateExtrinsics_loop_eq)

lemma normalized_ray_forward:
  "elem2 (liftProjective cam p) \<noteq> 0 \<Longrightarrow> elem2 (normalized_ray cam p) = Some 1"
  by (cases "liftProjective cam p") (simp add: normalized_ray_def fdiv_def)




text \<open>
  Claim C2, as amended. For object and image points of equal number, at least 4,
  \<^verbatim>\<open>estimateExtrinsics\<close> lifts every image point with
  \<^verbatim>\<open>liftProjective\<close>, divides the ray by its third component, makes the idealized
  2D point of the first two quotients and hands all of them, with the object points as
  they came, the 3x3 identity matrix and no distortion coefficients, to the solver, whose
  output it returns. The forward component of a divided ray is 1 for every image point whose
  lifted ray has a third component other than zero.
\<close>

theorem estimateExtrinsics_hands_idealized_points:
  assumes "length objectPoints = length imagePoints" and "4 \<le> length imagePoints"
  shows "estimateExtrinsics cam solvePnP objectPoints imagePoints =
           Inr (solvePnP objectPoints (map (idealized_point cam) imagePoints) eye3 [])
         \<and> list_all (\<lambda>p. idealized_point cam p =
               (elem0 (normalized_ray cam p), elem1 (normalized_ray cam p))) imagePoints
         \<and> list_all (\<lambda>p. elem2 (liftProjective cam p) \<noteq> 0 \<longrightarrow>
               elem2 (normalized_ray cam p) = Some 1) imagePoints"
  by (simp add: estimateExtrinsics_eq normalized_ray_forward list_all_iff idealized_point_def
      split: prod.splits)

theorem estimateExtrinsics_hands_idealized_points_witness:
  "length [(0, 0, 5), (1, 0, 5), (0, 1, 5), (1, 1, 6 :: real)] =
     length [(0, 0), (1 / 2, 0), (0, 1 / 2), (1 / 2, 1 / 2 :: real)]
   \<and> (4 :: nat) \<le> length [(0, 0), (1 / 2, 0), (0, 1 / 2), (1 / 2, 1 / 2 :: real)]
   \<and> estimateExtrinsics unit_sphere solver_arguments
        [(0, 0, 5), (1, 0, 5), (0, 1, 5), (1, 1, 6)]
        [(0, 0), (1 / 2, 0), (0, 1 / 2), (1 / 2, 1 / 2)] =
      Inr ([(0, 0, 5), (1, 0, 5), (0, 1, 5), (1, 1, 6)],
           [(Some 0, Some 0), (Some (4 / 3), Some 0), (Some 0, Some (4 / 3)), (Some 2, Some 2)],
           ((1, 0, 0), (0, 1, 0), (0, 0, 1)), [])
   \<and> elem2 (liftProjective unit_sphere (1 / 2, 1 / 2)) \<noteq> 0
   \<and> elem2 (normalized_ray unit_sphere (1 / 2, 1 / 2)) = Some 1"
  using estimateExtrinsics_hands_idealized_points
    [of "[(0, 0, 5), (1, 0, 5), (0, 1, 5), (1, 1, 6)]"
      "[(0, 0), (1 / 2, 0), (0, 1 / 2), (1 / 2, 1 / 2)]" unit_sphere solver_arguments]
  by (simp add: unit_sphere_def idealized_point_def normalized_ray_def fdiv_def
      solver_arguments_def eye3_def)

text \<open>
  Claim C2 as stated fails: the unified sphere model lifts the pixel \<open>(1, 0)\<close> to the
  ray \<open>(1, 0, 0)\<close>; divided by its third component, the forward component of that ray
  is no number, and so are the coordinates handed to the solver.
\<close>

theorem estimateExtrinsics_forward_component_counterexample:
  "length [(0, 0, 5), (1, 0, 5), (0, 1, 5), (1, 1, 6 :: real)] =
     length [(1, 0), (0, 0), (0, 1), (1 / 2, 0 :: real)]
   \<and> (4 :: nat) \<le> length [(1, 0), (0, 0), (0, 1), (1 / 2, 0 :: real)]
   \<and> liftProjective unit_sphere (1, 0) = (1, 0, 0)
   \<and> elem2 (normalized_ray unit_sphere (1, 0)) = None
   \<and> elem2 (normalized_ray unit_sphere (1, 0)) \<noteq> Some 1
   \<and> estimateExtrinsics unit_sphere solver_arguments
        [(0, 0, 5), (1, 0, 5), (0, 1, 5), (1, 1, 6)]
        [(1, 0), (0, 0), (0, 1), (1 / 2, 0)] =
      Inr ([(0, 0, 5), (1, 0, 5), (0, 1, 5), (1, 1, 6)],
           [(None, None), (Some 0, Some 0), (None, None), (Some (4 / 3), Some 0)],
           ((1, 0, 0), (0, 1, 0), (0, 0, 1)), [])"
  by (simp add: estimateExtrinsics_def estimateExtrinsics_loop.simps vector_at_def
      unit_sphere_def normalized_ray_def fdiv_def solver_arguments_def eye3_def
      numeral_eq_Suc)



subsection \<open>Reprojection errors and the mask\<close>

lemma sqrt_4: "sqrt 4 = 2" "sqrt 16 = 4"
  by (rule real_sqrt_unique; simp)+

text \<open>
  A view of one point at distance 0 and a view of three points at distance 4: the loops
  return \<open>12 / 4 = 3\<close>, where the mean of the two means would be 2.
\<close>

lemma reprojectionError_weights_views_by_points:
  "reprojectionError unit_pinhole Rodrigues_formula
       [[(0, 0, 1)], [(0, 0, 1), (1, 0, 1), (0, 1, 1)]]
       [[(0, 0)], [(4, 0), (1, 4), (-4, 1)]]
       [(0, 0, 0), (0, 0, 0)] [(0, 0, 0), (0, 0, 0)] True =
     Inr (Some 3, [Some 0, Some 4])"
  by (simp add: reprojectionError_def reprojectionError_views.simps vector_at_def
      projectPoints_def projectPoints_loop.simps reprojectionError_points.simps
      Rodrigues_formula_zero unit_pinhole_def eye3_def fdiv_def sqrt_4)

lemma vec2_norm_nonneg: "0 \<le> vec2_norm v"
  by (cases v) simp

lemma vec2_norm_zero: "vec2_norm v = 0 \<longleftrightarrow> v = (0, 0)"
  by (cases v) (simp add: sum_squares_eq_zero_iff)

lemma pixel_distance_nonneg: "0 \<le> pixel_distance p q"
  by (simp add: pixel_distance_def vec2_norm_nonneg)

lemma pixel_distance_zero: "pixel_distance p q = 0 \<longleftrightarrow> p = q"
  by (cases p; cases q) (simp add: pixel_distance_def vec2_norm_zero)

lemma idealized_point_store_mask:
  "idealized_point (store_mask m cam) = idealized_point cam"
  by (rule ext) (simp add: idealized_point_def normalized_ray_def store_mask_def)

lemma projectPoints_store_mask:
  "projectPoints (store_mask m cam) Rodrigues objectPoints rvec tvec imagePoints =
     projectPoints cam Rodrigues objectPoints rvec tvec imagePoints"
  by (simp add: projectPoints_eq project_point_def store_mask_def)

lemma reprojectionError_views_store_mask:
  "reprojectionError_views (store_mask m cam) Rodrigues objectPoints imagePoints rvecs tvecs
       computePerViewErrors i s =
     reprojectionError_views cam Rodrigues objectPoints imagePoints rvecs tvecs
       computePerViewErrors i s"
proof (induction "length objectPoints - i" arbitrary: i s)
  case 0
  then show ?case
    by (simp add: reprojectionError_views.simps[of _ _ _ _ _ _ _ i])
next
  case (Suc n)
  then have n: "n = length objectPoints - Suc i"
    by simp
  show ?case
    by (subst (1 2) reprojectionError_views.simps)
      (simp add: projectPoints_store_mask Suc.hyps(1)[OF n] Let_def split: sum.splits)
qed

text \<open>
  Claim C8. Storing a mask in the camera, whatever the mask, changes the result of none
  of \<^verbatim>\<open>estimateExtrinsics\<close>, \<^verbatim>\<open>projectPoints\<close>, the two
  \<^verbatim>\<open>reprojectionError\<close> overloads and \<^verbatim>\<open>reprojectionDist\<close>; the
  store itself is seen by \<^verbatim>\<open>mask()\<close>.
\<close>

theorem mask_independence:
  "estimateExtrinsics (store_mask m cam) solvePnP objectPoints imagePoints =
     estimateExtrinsics cam solvePnP objectPoints imagePoints
   \<and> projectPoints (store_mask m cam) Rodrigues worldPoints rvec tvec estImagePoints =
       projectPoints cam Rodrigues worldPoints rvec tvec estImagePoints
   \<and> reprojectionError (store_mask m cam) Rodrigues viewObjects viewPoints rvecs tvecs
         computePerViewErrors =
       reprojectionError cam Rodrigues viewObjects viewPoints rvecs tvecs computePerViewErrors
   \<and> reprojectionError_point (store_mask m cam) toRotationMatrix P camera_q camera_t
         observed_p =
       reprojectionError_point cam toRotationMatrix P camera_q camera_t observed_p
   \<and> reprojectionDist (store_mask m cam) P1 P2 = reprojectionDist cam P1 P2
   \<and> camera_mask (store_mask m cam) = m"
  by (simp add: estimateExtrinsics_eq idealized_point_store_mask projectPoints_store_mask
      reprojectionError_def reprojectionError_views_store_mask)
    (simp add: reprojectionError_point_def reprojectionDist_def store_mask_def camera_mask_def)

theorem mask_independence_witness:
  "camera_mask (store_mask [[0, 255], [255, 0]] unit_pinhole) = [[0, 255], [255, 0]]
   \<and> camera_mask unit_pinhole = []
   \<and> estimateExtrinsics (store_mask [[0, 255], [255, 0]] unit_pinhole) solver_arguments
        [(0, 0, 5), (1, 0, 5)] [(3, 4), (1, 2)] =
      Inr ([(0, 0, 5), (1, 0, 5)], [(Some 3, Some 4), (Some 1, Some 2)],
           ((1, 0, 0), (0, 1, 0), (0, 0, 1)), [])
   \<and> projectPoints (store_mask [[0, 255], [255, 0]] unit_pinhole) Rodrigues_formula
        [(2, 4, 2), (3, 0, 1)] (0, 0, 0) (0, 0, 0) [] = [(1, 2), (3, 0)]
   \<and> reprojectionError (store_mask [[0, 255], [255, 0]] unit_pinhole) Rodrigues_formula
        [[(0, 0, 1)], [(0, 0, 1), (1, 0, 1), (0, 1, 1)]]
        [[(0, 0)], [(4, 0), (1, 4), (-4, 1)]]
        [(0, 0, 0), (0, 0, 0)] [(0, 0, 0), (0, 0, 0)] True =
      Inr (Some 3, [Some 0, Some 4])
   \<and> reprojectionError_point (store_mask [[0, 255], [255, 0]] unit_pinhole) quaternion_matrix
        (2, 4, 1) (0, 0, 0, 1) (0, 0, 1) (2, 2) = 5
   \<and> reprojectionDist (store_mask [[0, 255], [255, 0]] unit_pinhole) (3, 4, 1) (0, 0, 1) = 5"
proof -
  note frame = mask_independence
    [of "[[0, 255], [255, 0]]" unit_pinhole solver_arguments "[(0, 0, 5), (1, 0, 5)]"
      "[(3, 4), (1, 2)]" Rodrigues_formula "[(2, 4, 2), (3, 0, 1)]" "(0, 0, 0)" "(0, 0, 0)" "[]"
      "[[(0, 0, 1)], [(0, 0, 1), (1, 0, 1), (0, 1, 1)]]"
      "[[(0, 0)], [(4, 0), (1, 4), (-4, 1)]]" "[(0, 0, 0), (0, 0, 0)]" "[(0, 0, 0), (0, 0, 0)]"
      True quaternion_matrix "(2, 4, 1)" "(0, 0, 0, 1)" "(0, 0, 1)" "(2, 2)"
      "(3, 4, 1)" "(0, 0, 1)"]
  have "estimateExtrinsics unit_pinhole solver_arguments [(0, 0, 5), (1, 0, 5)]
      [(3, 4), (1, 2)] =
      Inr ([(0, 0, 5), (1, 0, 5)], [(Some 3, Some 4), (Some 1, Some 2)],
           ((1, 0, 0), (0, 1, 0), (0, 0, 1)), [])"
    by (simp add: estimateExtrinsics_eq idealized_point_def normalized_ray_def fdiv_def
        unit_pinhole_def solver_arguments_def eye3_def)
  moreover have "projectPoints unit_pinhole Rodrigues_formula [(2, 4, 2), (3, 0, 1)] (0, 0, 0)
      (0, 0, 0) [] = [(1, 2), (3, 0)]"
    by (simp add: projectPoints_eq project_point_def Rodrigues_formula_zero unit_pinhole_def
        eye3_def)
  moreover have "reprojectionError_point unit_pinhole quaternion_matrix (2, 4, 1) (0, 0, 0, 1)
      (0, 0, 1) (2, 2) = 5"
    by (simp add: reprojectionError_point_def quaternion_matrix_def unit_pinhole_def sqrt_25)
  moreover have "reprojectionDist unit_pinhole (3, 4, 1) (0, 0, 1) = 5"
    by (simp add: reprojectionDist_def unit_pinhole_def sqrt_25)
  moreover have "camera_mask unit_pinhole = []"
    by (simp add: camera_mask_def unit_pinhole_def)
  ultimately show ?thesis
    using frame reprojectionError_weights_views_by_points by simp
qed

end
